theory Spec2Isabelle
  imports Main "HOL-Library.Word"
begin

section \<open>Time values of the Go standard library\<close>

text \<open>
  A \<^verbatim>\<open>time.Time\<close> is an instant, kept here as the number of nanoseconds since
  the zero instant \<^verbatim>\<open>time.Time{}\<close> (January 1, year 1, UTC); wall clock,
  monotonic reading and location of the Go representation are not told apart.
  A \<^verbatim>\<open>time.Duration\<close> is an \<^verbatim>\<open>int64\<close> count of nanoseconds. The code
  only compares durations, adds one to an instant and takes the difference of
  two instants, which saturates, so durations are mathematical integers and the
  saturation of \<^verbatim>\<open>Sub\<close> is written out.
\<close>

type_synonym Time = int
type_synonym Duration = int

definition time_zero :: Time where
  "time_zero = 0"

definition time_IsZero :: "Time \<Rightarrow> bool" where
  "time_IsZero t \<longleftrightarrow> t = time_zero"

definition time_Before :: "Time \<Rightarrow> Time \<Rightarrow> bool" where
  "time_Before t u \<longleftrightarrow> t < u"

definition time_After :: "Time \<Rightarrow> Time \<Rightarrow> bool" where
  "time_After t u \<longleftrightarrow> u < t"

definition time_Add :: "Time \<Rightarrow> Duration \<Rightarrow> Time" where
  "time_Add t d = t + d"

definition minDuration :: Duration where
  "minDuration = - (2 ^ 63)"

definition maxDuration :: Duration where
  "maxDuration = 2 ^ 63 - 1"

text \<open>\<^verbatim>\<open>t.Sub(u)\<close>: the difference, or the nearest representable duration.\<close>

definition time_Sub :: "Time \<Rightarrow> Time \<Rightarrow> Duration" where
  "time_Sub t u =
     (if t - u < minDuration then minDuration
      else if maxDuration < t - u then maxDuration
      else t - u)"

text \<open>
  \<^verbatim>\<open>time.Until(t)\<close> is \<^verbatim>\<open>t.Sub(time.Now())\<close>; the clock reading it takes is
  the first argument.
\<close>

definition time_Until :: "Time \<Rightarrow> Time \<Rightarrow> Duration" where
  "time_Until clock t = time_Sub t clock"

definition Millisecond :: Duration where
  "Millisecond = 1000000"

definition Second :: Duration where
  "Second = 1000000000"

definition Minute :: Duration where
  "Minute = 60 * Second"

text \<open>
  \<^verbatim>\<open>int(d.Seconds())\<close>: the duration in seconds as a float, cut off towards
  zero. The float is the whole seconds plus the remaining nanoseconds over
  \<^verbatim>\<open>1e9\<close>; the result is the quotient truncated towards zero (the rounding of
  the float sum can only reach the next whole second for durations beyond
  \<^verbatim>\<open>2^24\<close> seconds, which is left out). The quotient is far inside the range
  of a Go \<^verbatim>\<open>int\<close>, so it is an integer here.
\<close>

definition duration_Seconds_int :: "Duration \<Rightarrow> int" where
  "duration_Seconds_int d = (if d < 0 then - ((- d) div Second) else d div Second)"

section \<open>The storage package\<close>

text \<open>A Go \<^verbatim>\<open>int\<close> is a 64-bit two's complement integer: \<^verbatim>\<open>++\<close> wraps.\<close>

record ClientData =
  RequestCount :: "64 word"
  WindowStart :: Time
  BlockedUntil :: Time

text \<open>
  \<^verbatim>\<open>MemoryStorage\<close> is a map from client id to client data behind a mutex.
  Every method holds the lock for its whole body, so a method is one step on the
  map; the map is passed in and the updated map is returned.
\<close>

type_synonym MemoryStorage = "string \<rightharpoonup> ClientData"

definition NewMemoryStorage :: MemoryStorage where
  "NewMemoryStorage = Map.empty"

definition GetClientData :: "MemoryStorage \<Rightarrow> string \<Rightarrow> ClientData option" where
  "GetClientData s clientID = s clientID"

definition SetClientData :: "MemoryStorage \<Rightarrow> string \<Rightarrow> ClientData \<Rightarrow> MemoryStorage" where
  "SetClientData s clientID data = s(clientID \<mapsto> data)"

text \<open>The clock reading of the absent-key branch is the third argument.\<close>

definition IncrementRequestCount ::
  "MemoryStorage \<Rightarrow> string \<Rightarrow> Time \<Rightarrow> 64 word \<times> MemoryStorage" where
  "IncrementRequestCount s clientID clock =
     (case s clientID of
        Some data \<Rightarrow>
          (RequestCount data + 1, s(clientID \<mapsto> data\<lparr>RequestCount := RequestCount data + 1\<rparr>))
      | None \<Rightarrow>
          (1, s(clientID \<mapsto>
                \<lparr>RequestCount = 1, WindowStart = clock, BlockedUntil = time_zero\<rparr>)))"

definition ResetWindow :: "MemoryStorage \<Rightarrow> string \<Rightarrow> Time \<Rightarrow> MemoryStorage" where
  "ResetWindow s clientID windowStart =
     s(clientID \<mapsto> \<lparr>RequestCount = 1, WindowStart = windowStart, BlockedUntil = time_zero\<rparr>)"

definition BlockClient :: "MemoryStorage \<Rightarrow> string \<Rightarrow> Time \<Rightarrow> MemoryStorage" where
  "BlockClient s clientID blockedUntil =
     (case s clientID of
        Some data \<Rightarrow> s(clientID \<mapsto> data\<lparr>BlockedUntil := blockedUntil\<rparr>)
      | None \<Rightarrow> s)"

definition DeleteClient :: "MemoryStorage \<Rightarrow> string \<Rightarrow> MemoryStorage" where
  "DeleteClient s clientID = s(clientID := None)"

definition Clear :: "MemoryStorage \<Rightarrow> MemoryStorage" where
  "Clear s = Map.empty"

text \<open>
  \<^verbatim>\<open>CheckAndIncrement\<close> returns the client data, the flag and the updated map.
  The source tests \<^verbatim>\<open>exists\<close> in each of its first three conditions and
  \<^verbatim>\<open>!exists\<close> in the fourth; here the lookup is split once, the branches in
  the order of the source.
\<close>

definition CheckAndIncrement ::
  "MemoryStorage \<Rightarrow> string \<Rightarrow> Time \<Rightarrow> Duration \<Rightarrow> 64 word \<Rightarrow> Duration
     \<Rightarrow> (ClientData \<times> bool) \<times> MemoryStorage" where
  "CheckAndIncrement s clientID now windowDuration maxRequests blockDuration =
     (case s clientID of
        Some data \<Rightarrow>
          if \<not> time_IsZero (BlockedUntil data) \<and> time_Before now (BlockedUntil data) then
            ((data, False), s)
          else if \<not> time_IsZero (BlockedUntil data) \<and> time_After now (BlockedUntil data) then
            (let fresh = \<lparr>RequestCount = 1, WindowStart = now, BlockedUntil = time_zero\<rparr>
             in ((fresh, True), s(clientID \<mapsto> fresh)))
          else if windowDuration \<le> time_Sub now (WindowStart data) then
            (let fresh = \<lparr>RequestCount = 1, WindowStart = now, BlockedUntil = time_zero\<rparr>
             in ((fresh, True), s(clientID \<mapsto> fresh)))
          else
            (let counted = data\<lparr>RequestCount := RequestCount data + 1\<rparr>;
                 updated =
                   (if word_sless maxRequests (RequestCount counted)
                    then counted\<lparr>BlockedUntil := time_Add now blockDuration\<rparr>
                    else counted)
             in ((updated, True), s(clientID \<mapsto> updated)))
      | None \<Rightarrow>
          (let fresh = \<lparr>RequestCount = 1, WindowStart = now, BlockedUntil = time_zero\<rparr>
           in ((fresh, True), s(clientID \<mapsto> fresh))))"

section \<open>The ratelimiter package\<close>

text \<open>
  The limiter's settings. The storage it points to is passed to \<^verbatim>\<open>Allow\<close>
  beside it; the logger only writes log lines and is left out.
\<close>

record RateLimiter =
  maxRequests :: "64 word"
  windowDuration :: Duration
  blockDuration :: Duration
  errorMessage :: string
  includeJSON :: bool
  logOnExceedOnly :: bool

definition New :: RateLimiter where
  "New = \<lparr>maxRequests = 100, windowDuration = Minute, blockDuration = Minute,
          errorMessage = ''Rate limit exceeded'', includeJSON = True, logOnExceedOnly = True\<rparr>"

definition WithMaxRequests :: "64 word \<Rightarrow> RateLimiter \<Rightarrow> RateLimiter" where
  "WithMaxRequests m rl = rl\<lparr>maxRequests := m\<rparr>"

definition WithWindowDuration :: "Duration \<Rightarrow> RateLimiter \<Rightarrow> RateLimiter" where
  "WithWindowDuration d rl = rl\<lparr>windowDuration := d\<rparr>"

definition WithBlockDuration :: "Duration \<Rightarrow> RateLimiter \<Rightarrow> RateLimiter" where
  "WithBlockDuration d rl = rl\<lparr>blockDuration := d\<rparr>"

definition WithErrorMessage :: "string \<Rightarrow> RateLimiter \<Rightarrow> RateLimiter" where
  "WithErrorMessage m rl = rl\<lparr>errorMessage := m\<rparr>"

text \<open>
  \<^verbatim>\<open>RetryAfterSec\<close> holds a number of whole seconds of a duration, or 0; fields
  a \<^verbatim>\<open>Result\<close> literal does not set have Go's zero values.
\<close>

record Result =
  Allowed :: bool
  RequestsMade :: "64 word"
  Limit :: "64 word"
  RetryAfter :: Time
  RetryAfterSec :: int
  ErrorMessage :: string

text \<open>
  \<^verbatim>\<open>Allow\<close> reads the clock at its start (\<open>now\<close>) and, for a client found
  blocked, once more inside \<^verbatim>\<open>time.Until\<close> (\<open>clock\<close>).
\<close>

definition Allow ::
  "RateLimiter \<Rightarrow> MemoryStorage \<Rightarrow> string \<Rightarrow> Time \<Rightarrow> Time \<Rightarrow> Result \<times> MemoryStorage" where
  "Allow rl s clientID now clock =
     (case CheckAndIncrement s clientID now (windowDuration rl) (maxRequests rl) (blockDuration rl) of
        ((data, allowed), s') \<Rightarrow>
          if \<not> allowed then
            (let retryAfterSec = duration_Seconds_int (time_Until clock (BlockedUntil data))
             in (\<lparr>Allowed = False, RequestsMade = RequestCount data, Limit = maxRequests rl,
                  RetryAfter = BlockedUntil data,
                  RetryAfterSec = (if retryAfterSec < 1 then 1 else retryAfterSec),
                  ErrorMessage = errorMessage rl\<rparr>, s'))
          else if word_sless (maxRequests rl) (RequestCount data) then
            (\<lparr>Allowed = False, RequestsMade = RequestCount data, Limit = maxRequests rl,
              RetryAfter = BlockedUntil data,
              RetryAfterSec = duration_Seconds_int (blockDuration rl),
              ErrorMessage = errorMessage rl\<rparr>, s')
          else
            (\<lparr>Allowed = True, RequestsMade = RequestCount data, Limit = maxRequests rl,
              RetryAfter = time_zero, RetryAfterSec = 0, ErrorMessage = []\<rparr>, s'))"

text \<open>
  The earlier \<^verbatim>\<open>Allow\<close> of the repository, which reads the client data and
  then updates it through separate storage calls. Its part from the declaration
  of \<^verbatim>\<open>requestCount\<close> on is \<open>Allow_earlier_count\<close>, entered with the value
  \<^verbatim>\<open>exists\<close> has at that point; the clock reading is the one
  \<^verbatim>\<open>time.Until\<close> or \<^verbatim>\<open>IncrementRequestCount\<close> takes.
\<close>

definition Allow_earlier_count ::
  "RateLimiter \<Rightarrow> MemoryStorage \<Rightarrow> string \<Rightarrow> Time \<Rightarrow> Time \<Rightarrow> bool
     \<Rightarrow> Result \<times> MemoryStorage" where
  "Allow_earlier_count rl s clientID now clock exists =
     (case (if \<not> exists
            then (1, SetClientData s clientID
                       \<lparr>RequestCount = 1, WindowStart = now, BlockedUntil = time_zero\<rparr>)
            else IncrementRequestCount s clientID clock) of
        (requestCount, s') \<Rightarrow>
          if word_sless (maxRequests rl) requestCount then
            (let blockedUntil = time_Add now (blockDuration rl)
             in (\<lparr>Allowed = False, RequestsMade = requestCount, Limit = maxRequests rl,
                  RetryAfter = blockedUntil,
                  RetryAfterSec = duration_Seconds_int (blockDuration rl),
                  ErrorMessage = errorMessage rl\<rparr>,
                 BlockClient s' clientID blockedUntil))
          else
            (\<lparr>Allowed = True, RequestsMade = requestCount, Limit = maxRequests rl,
              RetryAfter = time_zero, RetryAfterSec = 0, ErrorMessage = []\<rparr>, s'))"

definition Allow_earlier ::
  "RateLimiter \<Rightarrow> MemoryStorage \<Rightarrow> string \<Rightarrow> Time \<Rightarrow> Time \<Rightarrow> Result \<times> MemoryStorage" where
  "Allow_earlier rl s clientID now clock =
     (case GetClientData s clientID of
        Some data \<Rightarrow>
          if \<not> time_IsZero (BlockedUntil data) \<and> time_Before now (BlockedUntil data) then
            (let retryAfterSec = duration_Seconds_int (time_Until clock (BlockedUntil data))
             in (\<lparr>Allowed = False, RequestsMade = RequestCount data, Limit = maxRequests rl,
                  RetryAfter = BlockedUntil data,
                  RetryAfterSec = (if retryAfterSec < 1 then 1 else retryAfterSec),
                  ErrorMessage = errorMessage rl\<rparr>, s))
          else
            (case (if \<not> time_IsZero (BlockedUntil data) \<and> time_After now (BlockedUntil data)
                   then (ResetWindow s clientID now, False) else (s, True)) of
               (s1, exists1) \<Rightarrow>
                 (case (if exists1 \<and> windowDuration rl \<le> time_Sub now (WindowStart data)
                        then (ResetWindow s1 clientID now, False) else (s1, exists1)) of
                    (s2, exists2) \<Rightarrow> Allow_earlier_count rl s2 clientID now clock exists2))
      | None \<Rightarrow> Allow_earlier_count rl s clientID now clock False)"

text \<open>
  Calls made one after the other, as the loops of the tests make them: each call
  is a client id with the two clock readings, and runs on the storage the
  previous call left.
\<close>

fun run_calls ::
  "(MemoryStorage \<Rightarrow> string \<Rightarrow> Time \<Rightarrow> Time \<Rightarrow> Result \<times> MemoryStorage) \<Rightarrow> MemoryStorage
     \<Rightarrow> (string \<times> Time \<times> Time) list \<Rightarrow> Result list \<times> MemoryStorage" where
  "run_calls allow s [] = ([], s)"
| "run_calls allow s ((clientID, now, clock) # calls) =
     (case allow s clientID now clock of
        (r, s') \<Rightarrow> (case run_calls allow s' calls of (rs, s'') \<Rightarrow> (r # rs, s'')))"

text \<open>The calls of one client, from the clock readings of each call.\<close>

definition calls_of :: "string \<Rightarrow> (Time \<times> Time) list \<Rightarrow> (string \<times> Time \<times> Time) list" where
  "calls_of clientID ts = map (\<lambda>(now, clock). (clientID, now, clock)) ts"

section \<open>Signed 64-bit facts\<close>

lemma sint_of_nat_64:
  assumes "n < 2 ^ 63"
  shows "sint (of_nat n :: 64 word) = int n"
proof -
  have "int n < 2 ^ 63"
    using assms by (metis of_nat_less_iff of_nat_numeral of_nat_power)
  then show ?thesis
    by (simp add: signed_of_nat signed_take_bit_int_eq_self)
qed

lemma sless_of_nat_64:
  assumes "k < 2 ^ 63" and "n < 2 ^ 63"
  shows "word_sless (of_nat k :: 64 word) (of_nat n) \<longleftrightarrow> k < n"
  using assms by (simp add: word_sless_alt sint_of_nat_64)

lemma sint_succ_64:
  fixes c :: "64 word"
  assumes "sint c < 2 ^ 63 - 1"
  shows "sint (c + 1) = sint c + 1"
proof -
  have "- (2 ^ 63) \<le> sint c"
    using sint_ge [of c] by simp
  then show ?thesis
    using assms by (simp add: sint_word_ariths signed_take_bit_int_eq_self)
qed

lemma sless_one_iff: "word_sless m (1 :: 64 word) \<longleftrightarrow> \<not> word_sle 1 m"
  by (simp add: signed.not_le)

lemma sless_of_nat_succ_64:
  assumes "k < 2 ^ 63" and "Suc n < 2 ^ 63"
  shows "word_sless (of_nat k :: 64 word) (of_nat n + 1) \<longleftrightarrow> k < Suc n"
proof -
  have e: "(of_nat n + 1 :: 64 word) = of_nat (Suc n)" by simp
  show ?thesis unfolding e using assms by (rule sless_of_nat_64)
qed

lemma duration_Seconds_int_ge_1:
  assumes "Second \<le> d"
  shows "1 \<le> duration_Seconds_int d"
proof -
  have "1 * Second \<le> d" using assms by simp
  then have "1 \<le> d div Second"
    by (simp add: Second_def pos_imp_zdiv_pos_iff)
  moreover have "\<not> d < 0" using assms by (simp add: Second_def)
  ultimately show ?thesis by (simp add: duration_Seconds_int_def)
qed

section \<open>What one call does, branch by branch\<close>

text \<open>The two results a reset or a first request can give, by the limit.\<close>

lemma Allow_absent:
  assumes "s clientID = None"
  shows "Allow rl s clientID now clock =
    (if word_sless (maxRequests rl) 1
     then \<lparr>Allowed = False, RequestsMade = 1, Limit = maxRequests rl,
           RetryAfter = time_zero, RetryAfterSec = duration_Seconds_int (blockDuration rl),
           ErrorMessage = errorMessage rl\<rparr>
     else \<lparr>Allowed = True, RequestsMade = 1, Limit = maxRequests rl,
           RetryAfter = time_zero, RetryAfterSec = 0, ErrorMessage = []\<rparr>,
     s(clientID \<mapsto> \<lparr>RequestCount = 1, WindowStart = now, BlockedUntil = time_zero\<rparr>))"
  using assms by (simp add: Allow_def CheckAndIncrement_def Let_def)

lemma Allow_blocked:
  assumes "s clientID = Some data"
    and "\<not> time_IsZero (BlockedUntil data)"
    and "time_Before now (BlockedUntil data)"
  shows "Allow rl s clientID now clock =
    (\<lparr>Allowed = False, RequestsMade = RequestCount data, Limit = maxRequests rl,
      RetryAfter = BlockedUntil data,
      RetryAfterSec =
        (if duration_Seconds_int (time_Until clock (BlockedUntil data)) < 1 then 1
         else duration_Seconds_int (time_Until clock (BlockedUntil data))),
      ErrorMessage = errorMessage rl\<rparr>, s)"
  using assms by (simp add: Allow_def CheckAndIncrement_def Let_def)

lemma Allow_block_expired:
  assumes "s clientID = Some data"
    and "\<not> time_IsZero (BlockedUntil data)"
    and "time_After now (BlockedUntil data)"
  shows "Allow rl s clientID now clock =
    (if word_sless (maxRequests rl) 1
     then \<lparr>Allowed = False, RequestsMade = 1, Limit = maxRequests rl,
           RetryAfter = time_zero, RetryAfterSec = duration_Seconds_int (blockDuration rl),
           ErrorMessage = errorMessage rl\<rparr>
     else \<lparr>Allowed = True, RequestsMade = 1, Limit = maxRequests rl,
           RetryAfter = time_zero, RetryAfterSec = 0, ErrorMessage = []\<rparr>,
     s(clientID \<mapsto> \<lparr>RequestCount = 1, WindowStart = now, BlockedUntil = time_zero\<rparr>))"
proof -
  have "\<not> time_Before now (BlockedUntil data)"
    using assms(3) by (simp add: time_After_def time_Before_def)
  then show ?thesis
    using assms by (simp add: Allow_def CheckAndIncrement_def Let_def)
qed

lemma Allow_window_expired:
  assumes "s clientID = Some data"
    and "time_IsZero (BlockedUntil data)"
    and "windowDuration rl \<le> time_Sub now (WindowStart data)"
  shows "Allow rl s clientID now clock =
    (if word_sless (maxRequests rl) 1
     then \<lparr>Allowed = False, RequestsMade = 1, Limit = maxRequests rl,
           RetryAfter = time_zero, RetryAfterSec = duration_Seconds_int (blockDuration rl),
           ErrorMessage = errorMessage rl\<rparr>
     else \<lparr>Allowed = True, RequestsMade = 1, Limit = maxRequests rl,
           RetryAfter = time_zero, RetryAfterSec = 0, ErrorMessage = []\<rparr>,
     s(clientID \<mapsto> \<lparr>RequestCount = 1, WindowStart = now, BlockedUntil = time_zero\<rparr>))"
  using assms by (simp add: Allow_def CheckAndIncrement_def Let_def)

lemma Allow_counting:
  assumes "s clientID = Some data"
    and "time_IsZero (BlockedUntil data)"
    and "time_Sub now (WindowStart data) < windowDuration rl"
  shows "Allow rl s clientID now clock =
    (if word_sless (maxRequests rl) (RequestCount data + 1)
     then (\<lparr>Allowed = False, RequestsMade = RequestCount data + 1, Limit = maxRequests rl,
            RetryAfter = time_Add now (blockDuration rl),
            RetryAfterSec = duration_Seconds_int (blockDuration rl),
            ErrorMessage = errorMessage rl\<rparr>,
           s(clientID \<mapsto> data\<lparr>RequestCount := RequestCount data + 1,
                                BlockedUntil := time_Add now (blockDuration rl)\<rparr>))
     else (\<lparr>Allowed = True, RequestsMade = RequestCount data + 1, Limit = maxRequests rl,
            RetryAfter = time_zero, RetryAfterSec = 0, ErrorMessage = []\<rparr>,
           s(clientID \<mapsto> data\<lparr>RequestCount := RequestCount data + 1\<rparr>)))"
  using assms by (simp add: Allow_def CheckAndIncrement_def Let_def)

section \<open>Blocked clients\<close>

text \<open>
  C6. If a client's state exists with a non-zero \<^verbatim>\<open>BlockedUntil\<close> and
  \<open>now\<close> is before it, \<^verbatim>\<open>Allow\<close> returns a denied decision that reports the
  recorded \<^verbatim>\<open>RequestCount\<close> and \<^verbatim>\<open>RetryAfter = BlockedUntil\<close>, and the
  storage is left as it was: no increment, window start and block untouched.
\<close>

theorem Allow_blocked_denies_unchanged:
  assumes "s clientID = Some data"
    and "\<not> time_IsZero (BlockedUntil data)"
    and "time_Before now (BlockedUntil data)"
  shows "Allowed (fst (Allow rl s clientID now clock)) = False
       \<and> RequestsMade (fst (Allow rl s clientID now clock)) = RequestCount data
       \<and> RetryAfter (fst (Allow rl s clientID now clock)) = BlockedUntil data
       \<and> snd (Allow rl s clientID now clock) = s
       \<and> snd (Allow rl s clientID now clock) clientID = Some data"
  using assms by (simp add: Allow_blocked)

theorem Allow_blocked_denies_unchanged_witness:
  "[''test-client'' \<mapsto> \<lparr>RequestCount = 4, WindowStart = 63900000000000000000,
                            BlockedUntil = 63900000060000000000\<rparr>] ''test-client''
     = Some \<lparr>RequestCount = 4, WindowStart = 63900000000000000000,
             BlockedUntil = 63900000060000000000\<rparr>
   \<and> \<not> time_IsZero 63900000060000000000
   \<and> time_Before 63900000001000000000 63900000060000000000
   \<and> RequestsMade (fst (Allow (WithMaxRequests 3 New)
        [''test-client'' \<mapsto> \<lparr>RequestCount = 4, WindowStart = 63900000000000000000,
                               BlockedUntil = 63900000060000000000\<rparr>]
        ''test-client'' 63900000001000000000 63900000001000000100)) = 4
   \<and> snd (Allow (WithMaxRequests 3 New)
        [''test-client'' \<mapsto> \<lparr>RequestCount = 4, WindowStart = 63900000000000000000,
                               BlockedUntil = 63900000060000000000\<rparr>]
        ''test-client'' 63900000001000000000 63900000001000000100) ''test-client''
     = Some \<lparr>RequestCount = 4, WindowStart = 63900000000000000000,
             BlockedUntil = 63900000060000000000\<rparr>"
  using Allow_blocked_denies_unchanged
    [of "[''test-client'' \<mapsto> \<lparr>RequestCount = 4, WindowStart = 63900000000000000000,
                               BlockedUntil = 63900000060000000000\<rparr>]"
        "''test-client''"
        "\<lparr>RequestCount = 4, WindowStart = 63900000000000000000,
          BlockedUntil = 63900000060000000000\<rparr>"
        63900000001000000000 "WithMaxRequests 3 New" 63900000001000000100]
  by (simp add: time_IsZero_def time_Before_def time_zero_def)

section \<open>The first request of a client\<close>

text \<open>
  C3, as the code has it. For a client id with no entry in the storage,
  \<^verbatim>\<open>Allow\<close> reports \<^verbatim>\<open>RequestsMade = 1\<close>, and the decision is allowed
  exactly when \<^verbatim>\<open>maxRequests\<close> is at least 1: \<^verbatim>\<open>Allow\<close> compares the count
  with the limit after the storage call, so a limit of 0 or less denies the
  first request too.
\<close>

theorem Allow_first_call:
  assumes "s clientID = None"
  shows "RequestsMade (fst (Allow rl s clientID now clock)) = 1
       \<and> (Allowed (fst (Allow rl s clientID now clock)) \<longleftrightarrow> word_sle 1 (maxRequests rl))"
  using assms by (simp add: Allow_absent sless_one_iff)

theorem Allow_first_call_witness:
  "NewMemoryStorage ''test-client'' = None
   \<and> RequestsMade (fst (Allow (WithMaxRequests 10 New) NewMemoryStorage ''test-client''
        63900000000000000000 63900000000000000000)) = 1
   \<and> Allowed (fst (Allow (WithMaxRequests 10 New) NewMemoryStorage ''test-client''
        63900000000000000000 63900000000000000000))"
  using Allow_first_call [of NewMemoryStorage "''test-client''" "WithMaxRequests 10 New"
      63900000000000000000 63900000000000000000]
  by (simp add: NewMemoryStorage_def WithMaxRequests_def New_def word_sle_eq)

text \<open>
  With \<^verbatim>\<open>WithMaxRequests(0)\<close> the first request of a client is denied, so the
  first call is not allowed under every configuration.
\<close>

theorem Allow_first_call_denied_counterexample:
  "NewMemoryStorage ''test-client'' = None
   \<and> Allowed (fst (Allow (WithMaxRequests 0 New) NewMemoryStorage ''test-client''
        63900000000000000000 63900000000000000000)) = False
   \<and> RequestsMade (fst (Allow (WithMaxRequests 0 New) NewMemoryStorage ''test-client''
        63900000000000000000 63900000000000000000)) = 1"
  by (simp add: Allow_def CheckAndIncrement_def NewMemoryStorage_def WithMaxRequests_def
      New_def Let_def word_sless_alt)

section \<open>A block that has run out\<close>




section \<open>A window that has run out\<close>

text \<open>
  C8, as the code has it. If a client's state exists with a zero
  \<^verbatim>\<open>BlockedUntil\<close> and \<^verbatim>\<open>now.Sub(WindowStart)\<close> is at least the window
  duration (equality included), \<^verbatim>\<open>Allow\<close> replaces the state by count 1 and
  window start \<open>now\<close> and reports \<^verbatim>\<open>RequestsMade = 1\<close>; the decision is
  allowed exactly when \<^verbatim>\<open>maxRequests\<close> is at least 1.
\<close>

theorem Allow_after_window_expired:
  assumes "s clientID = Some data"
    and "time_IsZero (BlockedUntil data)"
    and "windowDuration rl \<le> time_Sub now (WindowStart data)"
  shows "snd (Allow rl s clientID now clock) clientID
           = Some \<lparr>RequestCount = 1, WindowStart = now, BlockedUntil = time_zero\<rparr>
       \<and> RequestsMade (fst (Allow rl s clientID now clock)) = 1
       \<and> (Allowed (fst (Allow rl s clientID now clock)) \<longleftrightarrow> word_sle 1 (maxRequests rl))"
  using assms by (simp add: Allow_window_expired sless_one_iff)

theorem Allow_after_window_expired_witness:
  "[''test-client'' \<mapsto> \<lparr>RequestCount = 3, WindowStart = 63900000000000000000,
                            BlockedUntil = time_zero\<rparr>] ''test-client''
     = Some \<lparr>RequestCount = 3, WindowStart = 63900000000000000000, BlockedUntil = time_zero\<rparr>
   \<and> time_IsZero time_zero
   \<and> windowDuration (WithWindowDuration (100 * Millisecond) (WithMaxRequests 3 New))
       \<le> time_Sub 63900000000100000000 63900000000000000000
   \<and> snd (Allow (WithWindowDuration (100 * Millisecond) (WithMaxRequests 3 New))
        [''test-client'' \<mapsto> \<lparr>RequestCount = 3, WindowStart = 63900000000000000000,
                               BlockedUntil = time_zero\<rparr>]
        ''test-client'' 63900000000100000000 63900000000100000000) ''test-client''
     = Some \<lparr>RequestCount = 1, WindowStart = 63900000000100000000, BlockedUntil = time_zero\<rparr>
   \<and> RequestsMade (fst (Allow (WithWindowDuration (100 * Millisecond) (WithMaxRequests 3 New))
        [''test-client'' \<mapsto> \<lparr>RequestCount = 3, WindowStart = 63900000000000000000,
                               BlockedUntil = time_zero\<rparr>]
        ''test-client'' 63900000000100000000 63900000000100000000)) = 1
   \<and> Allowed (fst (Allow (WithWindowDuration (100 * Millisecond) (WithMaxRequests 3 New))
        [''test-client'' \<mapsto> \<lparr>RequestCount = 3, WindowStart = 63900000000000000000,
                               BlockedUntil = time_zero\<rparr>]
        ''test-client'' 63900000000100000000 63900000000100000000))"
  using Allow_after_window_expired
    [of "[''test-client'' \<mapsto> \<lparr>RequestCount = 3, WindowStart = 63900000000000000000,
                               BlockedUntil = time_zero\<rparr>]"
        "''test-client''"
        "\<lparr>RequestCount = 3, WindowStart = 63900000000000000000, BlockedUntil = time_zero\<rparr>"
        "WithWindowDuration (100 * Millisecond) (WithMaxRequests 3 New)"
        63900000000100000000 63900000000100000000]
  by (simp add: time_IsZero_def time_Sub_def minDuration_def maxDuration_def
      WithMaxRequests_def WithWindowDuration_def New_def Millisecond_def word_sle_eq)

text \<open>With a limit of 0 the request that resets the window is denied.\<close>

theorem Allow_after_window_expired_denied_counterexample:
  "time_IsZero time_zero
   \<and> windowDuration (WithMaxRequests 0 New) \<le> time_Sub 63900000060000000000 63900000000000000000
   \<and> Allowed (fst (Allow (WithMaxRequests 0 New)
        [''test-client'' \<mapsto> \<lparr>RequestCount = 1, WindowStart = 63900000000000000000,
                               BlockedUntil = time_zero\<rparr>]
        ''test-client'' 63900000060000000000 63900000060000000000)) = False"
  by (simp add: Allow_def CheckAndIncrement_def WithMaxRequests_def New_def Let_def
      word_sless_alt time_IsZero_def time_zero_def time_Before_def time_After_def
      time_Sub_def time_Add_def minDuration_def maxDuration_def Minute_def Second_def)

section \<open>Counting inside the window\<close>

text \<open>
  C5. If a client's state exists, is not blocked (\<^verbatim>\<open>BlockedUntil\<close> is zero)
  and \<^verbatim>\<open>now.Sub(WindowStart)\<close> is below the window duration, \<^verbatim>\<open>Allow\<close>
  adds exactly 1 to the stored \<^verbatim>\<open>RequestCount\<close> and keeps the window start.
  If the new count is over \<^verbatim>\<open>maxRequests\<close>, it stores
  \<^verbatim>\<open>BlockedUntil = now + blockDuration\<close> and denies, reporting the new count
  and that instant as \<^verbatim>\<open>RetryAfter\<close>; otherwise it allows, reporting the new
  count. The addition is Go's \<^verbatim>\<open>++\<close> on a 64-bit \<^verbatim>\<open>int\<close>; below the largest
  \<^verbatim>\<open>int\<close> it is the successor.
\<close>

theorem Allow_counts_within_window:
  assumes "s clientID = Some data"
    and "time_IsZero (BlockedUntil data)"
    and "time_Sub now (WindowStart data) < windowDuration rl"
  shows "map_option RequestCount (snd (Allow rl s clientID now clock) clientID)
           = Some (RequestCount data + 1)
       \<and> map_option WindowStart (snd (Allow rl s clientID now clock) clientID)
           = Some (WindowStart data)
       \<and> RequestsMade (fst (Allow rl s clientID now clock)) = RequestCount data + 1
       \<and> (if word_sless (maxRequests rl) (RequestCount data + 1)
          then map_option BlockedUntil (snd (Allow rl s clientID now clock) clientID)
                 = Some (time_Add now (blockDuration rl))
             \<and> Allowed (fst (Allow rl s clientID now clock)) = False
             \<and> RetryAfter (fst (Allow rl s clientID now clock)) = time_Add now (blockDuration rl)
          else map_option BlockedUntil (snd (Allow rl s clientID now clock) clientID)
                 = Some (BlockedUntil data)
             \<and> Allowed (fst (Allow rl s clientID now clock)) = True)
       \<and> (sint (RequestCount data) < 2 ^ 63 - 1
            \<longrightarrow> sint (RequestCount data + 1) = sint (RequestCount data) + 1)"
  using assms by (simp add: Allow_counting sint_succ_64)

theorem Allow_counts_within_window_witness:
  "[''test-client'' \<mapsto> \<lparr>RequestCount = 3, WindowStart = 63900000000000000000,
                            BlockedUntil = time_zero\<rparr>] ''test-client''
     = Some \<lparr>RequestCount = 3, WindowStart = 63900000000000000000, BlockedUntil = time_zero\<rparr>
   \<and> time_IsZero time_zero
   \<and> time_Sub 63900000001000000000 63900000000000000000
       < windowDuration (WithMaxRequests 3 New)
   \<and> word_sless (maxRequests (WithMaxRequests 3 New)) (3 + 1)
   \<and> sint (3 :: 64 word) < 2 ^ 63 - 1
   \<and> map_option RequestCount (snd (Allow (WithMaxRequests 3 New)
        [''test-client'' \<mapsto> \<lparr>RequestCount = 3, WindowStart = 63900000000000000000,
                               BlockedUntil = time_zero\<rparr>]
        ''test-client'' 63900000001000000000 63900000001000000000) ''test-client'') = Some 4
   \<and> map_option BlockedUntil (snd (Allow (WithMaxRequests 3 New)
        [''test-client'' \<mapsto> \<lparr>RequestCount = 3, WindowStart = 63900000000000000000,
                               BlockedUntil = time_zero\<rparr>]
        ''test-client'' 63900000001000000000 63900000001000000000) ''test-client'')
       = Some 63900000061000000000
   \<and> Allowed (fst (Allow (WithMaxRequests 3 New)
        [''test-client'' \<mapsto> \<lparr>RequestCount = 3, WindowStart = 63900000000000000000,
                               BlockedUntil = time_zero\<rparr>]
        ''test-client'' 63900000001000000000 63900000001000000000)) = False
   \<and> RequestsMade (fst (Allow (WithMaxRequests 3 New)
        [''test-client'' \<mapsto> \<lparr>RequestCount = 3, WindowStart = 63900000000000000000,
                               BlockedUntil = time_zero\<rparr>]
        ''test-client'' 63900000001000000000 63900000001000000000)) = 4
   \<and> RetryAfter (fst (Allow (WithMaxRequests 3 New)
        [''test-client'' \<mapsto> \<lparr>RequestCount = 3, WindowStart = 63900000000000000000,
                               BlockedUntil = time_zero\<rparr>]
        ''test-client'' 63900000001000000000 63900000001000000000)) = 63900000061000000000
   \<and> sint (3 + 1 :: 64 word) = 4"
  using Allow_counts_within_window
    [of "[''test-client'' \<mapsto> \<lparr>RequestCount = 3, WindowStart = 63900000000000000000,
                               BlockedUntil = time_zero\<rparr>]"
        "''test-client''"
        "\<lparr>RequestCount = 3, WindowStart = 63900000000000000000, BlockedUntil = time_zero\<rparr>"
        63900000001000000000 "WithMaxRequests 3 New" 63900000001000000000]
  by (simp add: time_IsZero_def time_Sub_def time_Add_def minDuration_def maxDuration_def
      WithMaxRequests_def New_def Minute_def Second_def word_sless_alt)

section \<open>Stored counts\<close>

text \<open>
  A call of \<^verbatim>\<open>Allow\<close> leaves a stored count as it is, sets it to 1 or adds 1
  to it: counts that are at least 1 and at most \<open>n\<close> are at least 1 and at
  most \<open>n + 1\<close> afterwards.
\<close>

lemma Allow_counts_bounded:
  assumes inv: "\<forall>k d. s k = Some d
           \<longrightarrow> 1 \<le> sint (RequestCount d) \<and> sint (RequestCount d) \<le> int n"
    and n: "Suc n < 2 ^ 63"
    and after: "snd (Allow rl s clientID now clock) k = Some d"
  shows "1 \<le> sint (RequestCount d) \<and> sint (RequestCount d) \<le> int (Suc n)"
proof (cases "k = clientID")
  case False
  then have "snd (Allow rl s clientID now clock) k = s k"
    by (simp add: Allow_def CheckAndIncrement_def Let_def split: option.splits)
  then have "s k = Some d" using after by simp
  then have "1 \<le> sint (RequestCount d) \<and> sint (RequestCount d) \<le> int n"
    using inv by blast
  then show ?thesis by simp
next
  case True
  have nb: "int n < 2 ^ 63 - 1"
  proof -
    have "int (Suc n) < int (2 ^ 63)" using n by (simp only: of_nat_less_iff)
    then show ?thesis by simp
  qed
  show ?thesis
  proof (cases "s clientID")
    case None
    then show ?thesis
      using after True by (auto simp: Allow_absent)
  next
    case (Some data)
    have old: "1 \<le> sint (RequestCount data)" "sint (RequestCount data) \<le> int n"
      using inv Some by auto
    have succ: "sint (RequestCount data + 1) = sint (RequestCount data) + 1"
      using old nb by (simp add: sint_succ_64)
    have "RequestCount d = RequestCount data \<or> RequestCount d = 1
        \<or> RequestCount d = RequestCount data + 1"
      using after True Some
      by (auto simp: Allow_def CheckAndIncrement_def Let_def split: if_splits)
    then show ?thesis
      using old succ by auto
  qed
qed

lemma run_calls_counts_bounded:
  assumes "\<forall>k d. s k = Some d
           \<longrightarrow> 1 \<le> sint (RequestCount d) \<and> sint (RequestCount d) \<le> int n"
    and "n + length calls < 2 ^ 63"
    and "snd (run_calls (Allow rl) s calls) k = Some d"
  shows "1 \<le> sint (RequestCount d) \<and> sint (RequestCount d) \<le> int (n + length calls)"
  using assms
proof (induction calls arbitrary: s n)
  case Nil
  then show ?case by simp
next
  case (Cons call calls)
  obtain clientID now clock where call: "call = (clientID, now, clock)"
    by (cases call) auto
  let ?s1 = "snd (Allow rl s clientID now clock)"
  have n: "Suc n < 2 ^ 63" using Cons.prems(2) by simp
  have inv1: "\<forall>k d. ?s1 k = Some d
           \<longrightarrow> 1 \<le> sint (RequestCount d) \<and> sint (RequestCount d) \<le> int (Suc n)"
    using Allow_counts_bounded [OF Cons.prems(1) n] by blast
  have run: "snd (run_calls (Allow rl) s (call # calls)) = snd (run_calls (Allow rl) ?s1 calls)"
    by (simp add: call split: prod.splits)
  have "1 \<le> sint (RequestCount d) \<and> sint (RequestCount d) \<le> int (Suc n + length calls)"
    using Cons.IH [OF inv1] Cons.prems(2,3) run by simp
  then show ?case by simp
qed

text \<open>
  So in each storage that fewer than \<open>2^63 - 1\<close> calls of \<^verbatim>\<open>Allow\<close> have built
  from a new one, every stored count is not negative and below the largest
  \<^verbatim>\<open>int\<close>.
\<close>

lemma run_calls_counts_from_new:
  assumes "length calls < 2 ^ 63 - 1"
    and "snd (run_calls (Allow rl) NewMemoryStorage calls) k = Some d"
  shows "word_sle 0 (RequestCount d) \<and> sint (RequestCount d) < 2 ^ 63 - 1"
proof -
  have len: "0 + length calls < 2 ^ 63" using assms(1) by simp
  have "1 \<le> sint (RequestCount d) \<and> sint (RequestCount d) \<le> int (0 + length calls)"
    using run_calls_counts_bounded [where s = NewMemoryStorage and n = 0, OF _ len assms(2)]
    by (simp add: NewMemoryStorage_def)
  moreover have "int (length calls) < 2 ^ 63 - 1"
  proof -
    have "int (length calls) < int (2 ^ 63 - 1)" using assms(1) by (simp only: of_nat_less_iff)
    then show ?thesis by simp
  qed
  ultimately show ?thesis by (simp add: word_sle_eq)
qed

section \<open>A limit of zero\<close>

text \<open>
  C7. With \<^verbatim>\<open>maxRequests = 0\<close> every call of \<^verbatim>\<open>Allow\<close> is denied, and the
  first call of a client without state is denied with \<^verbatim>\<open>RequestsMade = 1\<close>.
  The stored count of the client, if there is one, is taken to be a count:
  not negative, and below the largest \<^verbatim>\<open>int\<close>, where \<^verbatim>\<open>++\<close> would wrap to a
  negative number; \<open>run_calls_counts_from_new\<close> shows this of the storages the
  limiter builds.
\<close>

theorem Allow_zero_limit_denies:
  assumes "maxRequests rl = 0"
    and "\<forall>data. s clientID = Some data
           \<longrightarrow> word_sle 0 (RequestCount data) \<and> sint (RequestCount data) < 2 ^ 63 - 1"
  shows "Allowed (fst (Allow rl s clientID now clock)) = False
       \<and> (s clientID = None \<longrightarrow> RequestsMade (fst (Allow rl s clientID now clock)) = 1)"
proof (cases "s clientID")
  case None
  then show ?thesis
    using assms(1) by (simp add: Allow_absent word_sless_alt)
next
  case (Some data)
  have count: "0 \<le> sint (RequestCount data)" "sint (RequestCount data) < 2 ^ 63 - 1"
    using assms(2) Some by (simp_all add: word_sle_eq)
  have over: "word_sless 0 (RequestCount data + 1)"
    using count by (simp add: word_sless_alt sint_succ_64)
  have one: "word_sless (0 :: 64 word) 1"
    by (simp add: word_sless_alt)
  show ?thesis
  proof (cases "\<not> time_IsZero (BlockedUntil data)")
    case True
    consider "time_Before now (BlockedUntil data)" | "time_After now (BlockedUntil data)"
      | "now = BlockedUntil data"
      using linorder_cases [of now "BlockedUntil data"]
      by (auto simp: time_Before_def time_After_def)
    then show ?thesis
    proof cases
      case 1
      then show ?thesis using Some True by (simp add: Allow_blocked)
    next
      case 2
      then show ?thesis using Some True assms(1) one by (simp add: Allow_block_expired)
    next
      case 3
      then show ?thesis
        using Some True assms(1) one over
        by (simp add: Allow_def CheckAndIncrement_def Let_def time_Before_def time_After_def)
    qed
  next
    case False
    then have zero: "time_IsZero (BlockedUntil data)" by simp
    show ?thesis
    proof (cases "windowDuration rl \<le> time_Sub now (WindowStart data)")
      case True
      then show ?thesis using Some zero assms(1) one by (simp add: Allow_window_expired)
    next
      case False
      then show ?thesis using Some zero assms(1) over by (simp add: Allow_counting)
    qed
  qed
qed

theorem Allow_zero_limit_denies_witness:
  "maxRequests (WithMaxRequests 0 New) = 0
   \<and> NewMemoryStorage ''test-client'' = None
   \<and> Allowed (fst (Allow (WithMaxRequests 0 New) NewMemoryStorage ''test-client''
        63900000000000000000 63900000000000000000)) = False
   \<and> RequestsMade (fst (Allow (WithMaxRequests 0 New) NewMemoryStorage ''test-client''
        63900000000000000000 63900000000000000000)) = 1
   \<and> [''test-client'' \<mapsto> \<lparr>RequestCount = 1, WindowStart = 63900000000000000000,
                              BlockedUntil = time_zero\<rparr>] ''test-client''
       = Some \<lparr>RequestCount = 1, WindowStart = 63900000000000000000, BlockedUntil = time_zero\<rparr>
   \<and> word_sle 0 (1 :: 64 word) \<and> sint (1 :: 64 word) < 2 ^ 63 - 1
   \<and> Allowed (fst (Allow (WithMaxRequests 0 New)
        [''test-client'' \<mapsto> \<lparr>RequestCount = 1, WindowStart = 63900000000000000000,
                               BlockedUntil = time_zero\<rparr>]
        ''test-client'' 63900000001000000000 63900000001000000000)) = False"
  using Allow_zero_limit_denies [of "WithMaxRequests 0 New" NewMemoryStorage "''test-client''"
      63900000000000000000 63900000000000000000]
    Allow_zero_limit_denies [of "WithMaxRequests 0 New"
      "[''test-client'' \<mapsto> \<lparr>RequestCount = 1, WindowStart = 63900000000000000000,
                               BlockedUntil = time_zero\<rparr>]" "''test-client''"
      63900000001000000000 63900000001000000000]
  by (simp add: NewMemoryStorage_def WithMaxRequests_def word_sle_eq)

section \<open>A limit of zero or less and a client without state\<close>



section \<open>The seconds to wait of a denied decision\<close>

text \<open>
  A denied decision carries at least one second when the block lasts at least
  one second.
\<close>

lemma Allow_denied_RetryAfterSec:
  assumes "Allowed (fst (Allow rl s clientID now clock)) = False"
    and "Second \<le> blockDuration rl"
  shows "1 \<le> RetryAfterSec (fst (Allow rl s clientID now clock))"
  using assms duration_Seconds_int_ge_1 [of "blockDuration rl"]
  by (auto simp: Allow_def Let_def split: prod.splits if_splits)

text \<open>
  C1 says that every denied decision has \<^verbatim>\<open>RetryAfterSec\<close> at least 1, also
  for a \<^verbatim>\<open>blockDuration\<close> below one second. The request that goes over the
  limit is denied with the whole seconds of \<^verbatim>\<open>blockDuration\<close>, which
  \<^verbatim>\<open>Allow\<close> does not raise to 1 there as it does for a client found blocked:
  with a limit of 2 and a block of 100 milliseconds the third request is denied
  with \<^verbatim>\<open>RetryAfterSec = 0\<close>.
\<close>

theorem Allow_RetryAfterSec_zero_on_exceeding:
  "fst (run_calls (Allow (WithBlockDuration (100 * Millisecond) (WithMaxRequests 2 New)))
         NewMemoryStorage
         [(''test-client'', 63900000000000000000, 63900000000000000000),
          (''test-client'', 63900000000000001000, 63900000000000001000),
          (''test-client'', 63900000000000002000, 63900000000000002000)])
   = [\<lparr>Allowed = True, RequestsMade = 1, Limit = 2, RetryAfter = 0, RetryAfterSec = 0,
        ErrorMessage = []\<rparr>,
      \<lparr>Allowed = True, RequestsMade = 2, Limit = 2, RetryAfter = 0, RetryAfterSec = 0,
        ErrorMessage = []\<rparr>,
      \<lparr>Allowed = False, RequestsMade = 3, Limit = 2, RetryAfter = 63900000000100002000,
        RetryAfterSec = 0, ErrorMessage = ''Rate limit exceeded''\<rparr>]"
  by (simp add: Allow_def CheckAndIncrement_def WithMaxRequests_def WithBlockDuration_def
      New_def NewMemoryStorage_def Let_def word_sless_alt time_IsZero_def time_zero_def
      time_Before_def time_After_def time_Sub_def time_Add_def minDuration_def
      maxDuration_def Minute_def Second_def Millisecond_def duration_Seconds_int_def)

section \<open>The earlier Allow and the current one\<close>

text \<open>With a limit of at least 1 the two take the same step on every storage.\<close>

lemma Allow_earlier_eq_Allow:
  assumes "word_sle 1 (maxRequests rl)"
  shows "Allow_earlier rl s clientID now clock = Allow rl s clientID now clock"
proof -
  have one: "\<not> word_sless (maxRequests rl) 1"
    using assms by (simp add: sless_one_iff)
  show ?thesis
  proof (cases "s clientID")
    case None
    then show ?thesis
      using one
      by (simp add: Allow_absent Allow_earlier_def Allow_earlier_count_def GetClientData_def
          SetClientData_def)
  next
    case (Some data)
    then show ?thesis
      using one
      by (auto simp: Allow_def CheckAndIncrement_def Allow_earlier_def Allow_earlier_count_def
          GetClientData_def SetClientData_def ResetWindow_def IncrementRequestCount_def
          BlockClient_def Let_def time_Before_def time_After_def)
  qed
qed

lemma run_calls_Allow_earlier_eq:
  assumes "word_sle 1 (maxRequests rl)"
  shows "run_calls (Allow_earlier rl) s calls = run_calls (Allow rl) s calls"
proof (induction calls arbitrary: s)
  case Nil
  show ?case by simp
next
  case (Cons call calls)
  obtain clientID now clock where call: "call = (clientID, now, clock)"
    by (cases call) auto
  show ?case
    using Cons.IH assms by (simp add: call Allow_earlier_eq_Allow)
qed


text \<open>
  C9 says that the earlier \<^verbatim>\<open>Allow\<close> and the current one return equal results
  and leave equal storage on every sequence of calls. With a limit of 0 the first
  call of a client already tells them apart: the earlier one records a block
  until \<open>now + blockDuration\<close> and reports it as \<^verbatim>\<open>RetryAfter\<close>, the current
  one records no block and reports the zero instant.
\<close>

theorem Allow_earlier_differs_at_zero_limit:
  "fst (Allow_earlier (WithMaxRequests 0 New) NewMemoryStorage ''test-client''
         63900000000000000000 63900000000000000000)
     = \<lparr>Allowed = False, RequestsMade = 1, Limit = 0, RetryAfter = 63900000060000000000,
        RetryAfterSec = 60, ErrorMessage = ''Rate limit exceeded''\<rparr>
   \<and> fst (Allow (WithMaxRequests 0 New) NewMemoryStorage ''test-client''
         63900000000000000000 63900000000000000000)
     = \<lparr>Allowed = False, RequestsMade = 1, Limit = 0, RetryAfter = 0,
        RetryAfterSec = 60, ErrorMessage = ''Rate limit exceeded''\<rparr>
   \<and> snd (Allow_earlier (WithMaxRequests 0 New) NewMemoryStorage ''test-client''
         63900000000000000000 63900000000000000000) ''test-client''
     = Some \<lparr>RequestCount = 1, WindowStart = 63900000000000000000,
             BlockedUntil = 63900000060000000000\<rparr>
   \<and> snd (Allow (WithMaxRequests 0 New) NewMemoryStorage ''test-client''
         63900000000000000000 63900000000000000000) ''test-client''
     = Some \<lparr>RequestCount = 1, WindowStart = 63900000000000000000, BlockedUntil = 0\<rparr>"
  by (simp add: Allow_def Allow_earlier_def Allow_earlier_count_def CheckAndIncrement_def
      GetClientData_def SetClientData_def BlockClient_def
      WithMaxRequests_def New_def NewMemoryStorage_def Let_def word_sless_alt
      time_zero_def time_Add_def Minute_def Second_def duration_Seconds_int_def)

section \<open>A burst of calls of one client\<close>

lemma run_calls_append:
  "run_calls allow s (xs @ ys) =
     (case run_calls allow s xs of
        (rs, s') \<Rightarrow> (case run_calls allow s' ys of (rs', s'') \<Rightarrow> (rs @ rs', s'')))"
  by (induction xs arbitrary: s) (auto split: prod.splits)

lemma run_calls_single:
  "run_calls allow s [(clientID, p)]
     = (case allow s clientID (fst p) (snd p) of (r, s') \<Rightarrow> ([r], s'))"
  by (cases p) simp

lemma calls_of_take_Suc:
  assumes "n < length ts"
  shows "calls_of clientID (take (Suc n) ts)
           = calls_of clientID (take n ts) @ [(clientID, fst (ts ! n), snd (ts ! n))]"
  using assms by (simp add: calls_of_def take_Suc_conv_app_nth case_prod_beta)

lemma Allow_burst_prefix:
  assumes lim: "maxRequests rl = of_nat K"
    and K: "1 \<le> K" "K < M"
    and M: "M < 2 ^ 63"
    and bd: "0 < blockDuration rl"
    and len: "length ts = M"
    and pos: "\<forall>i<M. 0 < fst (ts ! i)"
    and win: "\<forall>i<M. time_Sub (fst (ts ! i)) (fst (ts ! 0)) < windowDuration rl"
    and blk: "\<forall>i<M. K < i
                \<longrightarrow> time_Before (fst (ts ! i)) (time_Add (fst (ts ! K)) (blockDuration rl))"
    and fresh: "s clientID = None"
  shows "1 \<le> n \<Longrightarrow> n \<le> M \<Longrightarrow>
     (\<exists>rs s'. run_calls (Allow rl) s (calls_of clientID (take n ts)) = (rs, s')
        \<and> length rs = n \<and> length (filter Allowed rs) = min n K
        \<and> s' clientID = Some
             (if n \<le> K
              then \<lparr>RequestCount = of_nat n, WindowStart = fst (ts ! 0), BlockedUntil = time_zero\<rparr>
              else \<lparr>RequestCount = of_nat (K + 1), WindowStart = fst (ts ! 0),
                    BlockedUntil = time_Add (fst (ts ! K)) (blockDuration rl)\<rparr>))"
proof (induction n)
  case 0
  then show ?case by simp
next
  case (Suc n)
  have nM: "n < M" using Suc.prems by simp
  have Kb: "K < 2 ^ 63" using K M by simp
  show ?case
  proof (cases "n = 0")
    case True
    have "\<not> word_sless (maxRequests rl) 1"
      using K Kb sless_of_nat_64 [of K 1] by (simp add: lim)
    moreover have "calls_of clientID (take (Suc 0) ts) = [(clientID, fst (ts ! 0), snd (ts ! 0))]"
      using calls_of_take_Suc [of 0 ts clientID] nM len True by (simp add: calls_of_def)
    ultimately show ?thesis
      using True fresh K by (simp add: run_calls_single Allow_absent)
  next
    case False
    then have n1: "1 \<le> n" by simp
    obtain rs s' where run: "run_calls (Allow rl) s (calls_of clientID (take n ts)) = (rs, s')"
      and lrs: "length rs = n" and fil: "length (filter Allowed rs) = min n K"
      and st: "s' clientID = Some
             (if n \<le> K
              then \<lparr>RequestCount = of_nat n, WindowStart = fst (ts ! 0), BlockedUntil = time_zero\<rparr>
              else \<lparr>RequestCount = of_nat (K + 1), WindowStart = fst (ts ! 0),
                    BlockedUntil = time_Add (fst (ts ! K)) (blockDuration rl)\<rparr>)"
      using Suc.IH [OF n1] nM by auto
    have split: "run_calls (Allow rl) s (calls_of clientID (take (Suc n) ts))
        = (rs @ [fst (Allow rl s' clientID (fst (ts ! n)) (snd (ts ! n)))],
           snd (Allow rl s' clientID (fst (ts ! n)) (snd (ts ! n))))"
      using nM len run
      by (simp add: calls_of_take_Suc run_calls_append run_calls_single split: prod.splits)
    have inwin: "time_Sub (fst (ts ! n)) (fst (ts ! 0)) < windowDuration rl"
      using win nM by simp
    consider (below) "n < K" | (at) "n = K" | (above) "K < n"
      using linorder_cases [of n K] by auto
    then show ?thesis
    proof cases
      case below
      have "\<not> word_sless (maxRequests rl) (of_nat n + 1)"
        using below Kb sless_of_nat_succ_64 [of K n] by (simp add: lim)
      then have step: "Allow rl s' clientID (fst (ts ! n)) (snd (ts ! n))
          = (\<lparr>Allowed = True, RequestsMade = of_nat n + 1, Limit = maxRequests rl,
               RetryAfter = time_zero, RetryAfterSec = 0, ErrorMessage = []\<rparr>,
             s'(clientID \<mapsto> \<lparr>RequestCount = of_nat n + 1, WindowStart = fst (ts ! 0),
                               BlockedUntil = time_zero\<rparr>))"
        using below st inwin
        by (simp add: Allow_counting [where data = "\<lparr>RequestCount = of_nat n,
              WindowStart = fst (ts ! 0), BlockedUntil = time_zero\<rparr>"] time_IsZero_def)
      show ?thesis
        using below lrs fil by (simp add: split step)
    next
      case at
      have "word_sless (maxRequests rl) (of_nat n + 1)"
        using at Kb M K sless_of_nat_succ_64 [of K n] by (simp add: lim)
      then have step: "Allow rl s' clientID (fst (ts ! n)) (snd (ts ! n))
          = (\<lparr>Allowed = False, RequestsMade = of_nat n + 1, Limit = maxRequests rl,
               RetryAfter = time_Add (fst (ts ! n)) (blockDuration rl),
               RetryAfterSec = duration_Seconds_int (blockDuration rl),
               ErrorMessage = errorMessage rl\<rparr>,
             s'(clientID \<mapsto> \<lparr>RequestCount = of_nat n + 1, WindowStart = fst (ts ! 0),
                               BlockedUntil = time_Add (fst (ts ! n)) (blockDuration rl)\<rparr>))"
        using at st inwin
        by (simp add: Allow_counting [where data = "\<lparr>RequestCount = of_nat n,
              WindowStart = fst (ts ! 0), BlockedUntil = time_zero\<rparr>"] time_IsZero_def)
      show ?thesis
        using lrs fil by (simp add: split step at [symmetric])
    next
      case above
      have KM: "K < M" by (rule K(2))
      have nz: "\<not> time_IsZero (time_Add (fst (ts ! K)) (blockDuration rl))"
        using pos KM bd by (simp add: time_IsZero_def time_Add_def time_zero_def)
          (metis add_pos_pos less_irrefl)
      have before: "time_Before (fst (ts ! n)) (time_Add (fst (ts ! K)) (blockDuration rl))"
        using blk nM above by simp
      have step: "Allow rl s' clientID (fst (ts ! n)) (snd (ts ! n))
          = (\<lparr>Allowed = False, RequestsMade = of_nat (K + 1), Limit = maxRequests rl,
               RetryAfter = time_Add (fst (ts ! K)) (blockDuration rl),
               RetryAfterSec =
                 (if duration_Seconds_int (time_Until (snd (ts ! n))
                        (time_Add (fst (ts ! K)) (blockDuration rl))) < 1 then 1
                  else duration_Seconds_int (time_Until (snd (ts ! n))
                        (time_Add (fst (ts ! K)) (blockDuration rl)))),
               ErrorMessage = errorMessage rl\<rparr>, s')"
        using above st nz before
        by (simp add: Allow_blocked [where data = "\<lparr>RequestCount = of_nat (K + 1),
              WindowStart = fst (ts ! 0),
              BlockedUntil = time_Add (fst (ts ! K)) (blockDuration rl)\<rparr>"])
      show ?thesis
        using above lrs fil st by (simp add: split step)
    qed
  qed
qed

text \<open>
  C2, as the code has it. Let \<open>1 \<le> K < M\<close>, \<open>M\<close> a count a Go \<^verbatim>\<open>int\<close>
  holds, \<^verbatim>\<open>maxRequests = K\<close> and \<^verbatim>\<open>blockDuration > 0\<close>. A client without
  state makes \<open>M\<close> calls at instants after the zero instant, all within the
  window the first call opens, and every call after call \<open>K + 1\<close> comes before
  the block that call sets runs out. Then exactly \<open>K\<close> decisions are allowed
  and \<open>M - K\<close> are denied, and the stored \<^verbatim>\<open>RequestCount\<close> is \<open>K + 1\<close>: a
  call of a blocked client is not counted.
\<close>

theorem Allow_burst:
  assumes lim: "maxRequests rl = of_nat K"
    and K: "1 \<le> K" "K < M"
    and M: "M < 2 ^ 63"
    and bd: "0 < blockDuration rl"
    and len: "length ts = M"
    and pos: "\<forall>i<M. 0 < fst (ts ! i)"
    and win: "\<forall>i<M. time_Sub (fst (ts ! i)) (fst (ts ! 0)) < windowDuration rl"
    and blk: "\<forall>i<M. K < i
                \<longrightarrow> time_Before (fst (ts ! i)) (time_Add (fst (ts ! K)) (blockDuration rl))"
    and fresh: "s clientID = None"
  shows "length (filter Allowed (fst (run_calls (Allow rl) s (calls_of clientID ts)))) = K
       \<and> length (filter (\<lambda>r. \<not> Allowed r)
                   (fst (run_calls (Allow rl) s (calls_of clientID ts)))) = M - K
       \<and> map_option RequestCount (snd (run_calls (Allow rl) s (calls_of clientID ts)) clientID)
           = Some (of_nat (K + 1))"
proof -
  have M1: "1 \<le> M" using K by simp
  obtain rs s' where run: "run_calls (Allow rl) s (calls_of clientID ts) = (rs, s')"
    and lrs: "length rs = M" and fil: "length (filter Allowed rs) = min M K"
    and st: "s' clientID = Some
             (if M \<le> K
              then \<lparr>RequestCount = of_nat M, WindowStart = fst (ts ! 0), BlockedUntil = time_zero\<rparr>
              else \<lparr>RequestCount = of_nat (K + 1), WindowStart = fst (ts ! 0),
                    BlockedUntil = time_Add (fst (ts ! K)) (blockDuration rl)\<rparr>)"
    using Allow_burst_prefix [where s = s and clientID = clientID and n = M,
        OF lim K M bd len pos win blk fresh M1] len by auto
  have "length (filter Allowed rs) + length (filter (\<lambda>r. \<not> Allowed r) rs) = length rs"
    by (rule sum_length_filter_compl)
  then have "length (filter (\<lambda>r. \<not> Allowed r) rs) = M - K"
    using fil lrs K by simp
  then show ?thesis
    using run fil st K by simp
qed

theorem Allow_burst_witness:
  "maxRequests (WithMaxRequests 1 New) = of_nat 1
   \<and> (1 :: nat) \<le> 1 \<and> (1 :: nat) < 3 \<and> (3 :: nat) < 2 ^ 63
   \<and> 0 < blockDuration (WithMaxRequests 1 New)
   \<and> length [(63900000000000000000, 63900000000000000000),
              (63900000000000001000, 63900000000000001000),
              (63900000000000002000 :: Time, 63900000000000002000 :: Time)] = 3
   \<and> list_all (\<lambda>call. 0 < fst call)
        [(63900000000000000000, 63900000000000000000),
         (63900000000000001000, 63900000000000001000),
         (63900000000000002000 :: Time, 63900000000000002000 :: Time)]
   \<and> list_all (\<lambda>call. time_Sub (fst call) 63900000000000000000
                       < windowDuration (WithMaxRequests 1 New))
        [(63900000000000000000, 63900000000000000000),
         (63900000000000001000, 63900000000000001000),
         (63900000000000002000 :: Time, 63900000000000002000 :: Time)]
   \<and> time_Before 63900000000000002000
        (time_Add 63900000000000001000 (blockDuration (WithMaxRequests 1 New)))
   \<and> NewMemoryStorage ''concurrent-client'' = None
   \<and> length (filter Allowed (fst (run_calls (Allow (WithMaxRequests 1 New)) NewMemoryStorage
        (calls_of ''concurrent-client''
           [(63900000000000000000, 63900000000000000000),
            (63900000000000001000, 63900000000000001000),
            (63900000000000002000, 63900000000000002000)])))) = 1
   \<and> length (filter (\<lambda>r. \<not> Allowed r)
        (fst (run_calls (Allow (WithMaxRequests 1 New)) NewMemoryStorage
           (calls_of ''concurrent-client''
              [(63900000000000000000, 63900000000000000000),
               (63900000000000001000, 63900000000000001000),
               (63900000000000002000, 63900000000000002000)])))) = 2
   \<and> map_option RequestCount
        (snd (run_calls (Allow (WithMaxRequests 1 New)) NewMemoryStorage
           (calls_of ''concurrent-client''
              [(63900000000000000000, 63900000000000000000),
               (63900000000000001000, 63900000000000001000),
               (63900000000000002000, 63900000000000002000)])) ''concurrent-client'') = Some 2"
proof -
  let ?ts = "[(63900000000000000000, 63900000000000000000),
              (63900000000000001000, 63900000000000001000),
              (63900000000000002000 :: Time, 63900000000000002000 :: Time)]"
  let ?rl = "WithMaxRequests 1 New"
  have three: "\<And>i :: nat. i < 3 \<longleftrightarrow> i = 0 \<or> i = 1 \<or> i = 2"
    by auto
  have lim: "maxRequests ?rl = of_nat 1"
    by (simp add: WithMaxRequests_def)
  have bd: "0 < blockDuration ?rl"
    by (simp add: WithMaxRequests_def New_def Minute_def Second_def)
  have len: "length ?ts = 3"
    by simp
  have pos: "\<forall>i<3. 0 < fst (?ts ! i)"
    by (auto simp: three)
  have win: "\<forall>i<3. time_Sub (fst (?ts ! i)) (fst (?ts ! 0)) < windowDuration ?rl"
    by (auto simp: three time_Sub_def minDuration_def maxDuration_def WithMaxRequests_def
        New_def Minute_def Second_def)
  have blk: "\<forall>i<3. 1 < i
      \<longrightarrow> time_Before (fst (?ts ! i)) (time_Add (fst (?ts ! 1)) (blockDuration ?rl))"
    by (auto simp: three time_Before_def time_Add_def WithMaxRequests_def New_def
        Minute_def Second_def)
  have fresh: "NewMemoryStorage ''concurrent-client'' = None"
    by (simp add: NewMemoryStorage_def)
  show ?thesis
    using Allow_burst [where rl = ?rl and K = 1 and M = 3 and ts = ?ts
        and s = NewMemoryStorage and clientID = "''concurrent-client''",
        OF lim _ _ _ bd len pos win blk fresh]
      lim bd fresh
    by (simp add: time_Sub_def minDuration_def maxDuration_def time_Before_def time_Add_def
        WithMaxRequests_def New_def Minute_def Second_def)
qed

text \<open>
  With a limit of 1, three calls of a new client within the window and the block
  give one allowed and two denied decisions, and the stored count is 2, not 3.
\<close>

theorem Allow_burst_count_counterexample:
  "map Allowed (fst (run_calls (Allow (WithMaxRequests 1 New)) NewMemoryStorage
      (calls_of ''concurrent-client''
         [(63900000000000000000, 63900000000000000000),
          (63900000000000001000, 63900000000000001000),
          (63900000000000002000, 63900000000000002000)]))) = [True, False, False]
   \<and> map_option RequestCount
        (snd (run_calls (Allow (WithMaxRequests 1 New)) NewMemoryStorage
           (calls_of ''concurrent-client''
              [(63900000000000000000, 63900000000000000000),
               (63900000000000001000, 63900000000000001000),
               (63900000000000002000, 63900000000000002000)])) ''concurrent-client'') = Some 2
   \<and> map_option RequestCount
        (snd (run_calls (Allow (WithMaxRequests 1 New)) NewMemoryStorage
           (calls_of ''concurrent-client''
              [(63900000000000000000, 63900000000000000000),
               (63900000000000001000, 63900000000000001000),
               (63900000000000002000, 63900000000000002000)])) ''concurrent-client'') \<noteq> Some 3"
  by (simp add: calls_of_def Allow_def CheckAndIncrement_def WithMaxRequests_def
      New_def NewMemoryStorage_def Let_def word_sless_alt time_IsZero_def time_zero_def
      time_Before_def time_After_def time_Sub_def time_Add_def minDuration_def
      maxDuration_def Minute_def Second_def duration_Seconds_int_def)

end
